theory Spec2Isabelle
  imports Complex_Main "HOL-Library.AList" "HOL-Library.Product_Lexorder"
    "HOL-Library.Multiset"
begin

section \<open>Series and dictionaries\<close>

text \<open>
  A pandas Series over the model's date index is a list of values, one per row; every
  series of one model has the same index, so arithmetic between series is pointwise.
  Values are real numbers: the development verifies the arithmetic the code writes down,
  not the rounding of the machine's doubles.

  A Python dict is an association list with unique keys in insertion order:
  \<open>map_of\<close> reads it, \<open>AList.update\<close> is \<open>d[k] = v\<close> (an existing key keeps its
  place, a new key goes to the end), \<open>AList.delete\<close> is \<open>del d[k]\<close>.  A DataFrame is a
  dict of its columns.
\<close>

type_synonym series = "real list"

type_synonym 'v dict = "(string \<times> 'v) list"

definition keys :: "'v dict \<Rightarrow> string list" where
  "keys d = map fst d"

definition has_key :: "'v dict \<Rightarrow> string \<Rightarrow> bool" where
  "has_key d k = (k \<in> set (keys d))"

section \<open>model_operations.py: apply_adstock\<close>

text \<open>
  \<^verbatim>\<open>
  def apply_adstock(series, adstock_rate):
      if adstock_rate == 0:
          return series
      result = series.astype(float).copy()
      for i in range(1, len(result)):
          result.iloc[i] = float(series.iloc[i]) + adstock_rate * result.iloc[i-1]
      return result
  \<close>
  The loop writes \<open>result\<close> in place, left to right; every index it reads is in range.
\<close>

definition adstock_step :: "series \<Rightarrow> real \<Rightarrow> nat \<Rightarrow> series \<Rightarrow> series" where
  "adstock_step series adstock_rate i result =
     result[i := series ! i + adstock_rate * result ! (i - 1)]"

definition apply_adstock :: "series \<Rightarrow> real \<Rightarrow> series" where
  "apply_adstock series adstock_rate =
     (if adstock_rate = 0 then series
      else fold (adstock_step series adstock_rate) [1..<length series] series)"

section \<open>The regression library\<close>

text \<open>
  The code fits with statsmodels: \<open>sm.OLS(y, X)\<close> builds a regression of the target on a
  design frame and \<open>.fit()\<close> solves it.  Both are outside the repository, and both may
  raise; they are parameters of the model, with \<open>None\<close> for an exception.  The object
  that \<open>fit\<close> returns is the library's results wrapper.  \<open>params\<close> is the attribute the
  code reads and, in the refit with fixed coefficients, assigns.  \<open>fitted_params\<close> are the
  coefficients of the fit itself: a freshly fitted object reports them as \<open>params\<close> too, and
  \<open>predict\<close> and the fit statistics keep using them after \<open>params\<close> has been assigned,
  since the assignment only sets an attribute on the wrapper.
\<close>

record results =
  params :: "real dict"
  fitted_params :: "real dict"
  rsquared :: real
  resid :: series
  fittedvalues :: series

record 'm statsmodels =
  OLS :: "series \<Rightarrow> series dict \<Rightarrow> 'm option"
  fit :: "'m \<Rightarrow> results option"

text \<open>
  \<open>sm.add_constant(X)\<close> puts a column \<open>const\<close> of ones in front of the frame; with the
  library's default \<open>has_constant='skip'\<close> it returns the frame as it is when one of its columns
  is already a non-zero constant.
\<close>

definition is_const_column :: "series \<Rightarrow> bool" where
  "is_const_column c = (c \<noteq> [] \<and> list_all (\<lambda>v. v = hd c) c \<and> hd c \<noteq> 0)"

definition add_constant :: "nat \<Rightarrow> series dict \<Rightarrow> series dict" where
  "add_constant n X =
     (if list_ex (\<lambda>kv. is_const_column (snd kv)) X then X
      else (''const'', replicate n 1) # X)"

definition scale :: "real \<Rightarrow> series \<Rightarrow> series" where
  "scale c xs = map (\<lambda>v. c * v) xs"

definition series_add :: "series \<Rightarrow> series \<Rightarrow> series" where
  "series_add xs ys = map2 (+) xs ys"

definition series_sub :: "series \<Rightarrow> series \<Rightarrow> series" where
  "series_sub xs ys = map2 (-) xs ys"

definition sub_scalar :: "series \<Rightarrow> real \<Rightarrow> series" where
  "sub_scalar xs c = map (\<lambda>v. v - c) xs"

text \<open>
  The product of a design with a coefficient series, position by position; \<open>None\<close> when
  their numbers differ (the library raises).  \<open>results.predict(X)\<close> is this product with the
  coefficients of the fit.
\<close>

definition linear_predictor :: "real dict \<Rightarrow> nat \<Rightarrow> series dict \<Rightarrow> series option" where
  "linear_predictor coefficients n X =
     (if length coefficients = length X
      then Some (fold (\<lambda>pc acc. series_add acc (scale (snd (fst pc)) (snd (snd pc))))
                   (zip coefficients X) (replicate n 0))
      else None)"

definition predict :: "results \<Rightarrow> nat \<Rightarrow> series dict \<Rightarrow> series option" where
  "predict r n X = linear_predictor (fitted_params r) n X"

section \<open>linear_models.py: LinearModel\<close>

text \<open>
  The fields of \<open>LinearModel\<close> that fitting and decomposition read or write.
  \<open>model_data\<close> is \<open>None\<close> until data is set; \<open>loader\<close> is the data loader's dict of
  default transformation codes; \<open>wgtd_variables\<close> (name to component coefficients) is
  attached to the object by the weighted-variable module and absent (\<open>None\<close>) before.
\<close>

record 'm linear_model =
  model_data :: "series dict option"
  kpi :: "string option"
  features :: "string list"
  feature_transformations :: "string dict"
  transformed_data :: "series dict"
  model :: "'m option"
  results :: "results option"
  loader :: "string dict option"
  fixed_coefficients :: "real dict"
  wgtd_variables :: "real dict dict option"

datatype py_error = ValueError | KeyError

text \<open>\<open>not self.kpi\<close>: \<open>None\<close> and the empty string are falsy.\<close>

definition truthy :: "string option \<Rightarrow> bool" where
  "truthy k = (k \<noteq> None \<and> k \<noteq> Some [])"

text \<open>\<open>self.model_data[self.kpi]\<close>; \<open>None\<close> when the lookup raises.\<close>

definition column :: "series dict option \<Rightarrow> string option \<Rightarrow> series option" where
  "column md k =
     (case md of None \<Rightarrow> None
      | Some d \<Rightarrow> (case k of None \<Rightarrow> None | Some c \<Rightarrow> map_of d c))"

text \<open>
  \<^verbatim>\<open>
  for feat in self.features:
      if feat in self.transformed_data:
          X[feat] = self.transformed_data[feat]
      else:
          X[feat] = self.model_data[feat]
  \<close>
\<close>

fun feature_columns ::
  "series dict \<Rightarrow> series dict option \<Rightarrow> string list \<Rightarrow> series dict \<Rightarrow> series dict option" where
  "feature_columns td md [] X = Some X"
| "feature_columns td md (feat # feats) X =
     (case map_of td feat of
        Some v \<Rightarrow> feature_columns td md feats (AList.update feat v X)
      | None \<Rightarrow>
         (case column md (Some feat) of
            Some v \<Rightarrow> feature_columns td md feats (AList.update feat v X)
          | None \<Rightarrow> None))"

text \<open>
  The ordinary fit, written out four times in the source (\<open>_refit_model\<close>, \<open>add_feature\<close>,
  \<open>remove_feature\<close> and the branch of \<open>_refit_model_with_fixed_coefficients\<close> without fixed
  coefficients):
  \<^verbatim>\<open>
  y = self.model_data[self.kpi]
  X = pd.DataFrame(index=y.index)
  for feat in self.features: ...
  X = sm.add_constant(X)
  self.model = sm.OLS(y, X)
  self.results = self.model.fit()
  \<close>
  It runs inside \<open>try\<close>: \<open>Inl\<close> is the object as it stands when an exception leaves the
  block, \<open>Inr\<close> the object when the block completes.  \<open>self.model\<close> is assigned before
  \<open>fit\<close> runs.
\<close>

definition refit_try :: "'m statsmodels \<Rightarrow> 'm linear_model \<Rightarrow> 'm linear_model + 'm linear_model" where
  "refit_try sm s =
     (case column (model_data s) (kpi s) of
        None \<Rightarrow> Inl s
      | Some y \<Rightarrow>
         (case feature_columns (transformed_data s) (model_data s) (features s) [] of
            None \<Rightarrow> Inl s
          | Some X \<Rightarrow>
             (case OLS sm y (add_constant (length y) X) of
                None \<Rightarrow> Inl s
              | Some m \<Rightarrow>
                 (case fit sm m of
                    None \<Rightarrow> Inl (s\<lparr>model := Some m\<rparr>)
                  | Some r \<Rightarrow> Inr (s\<lparr>model := Some m, results := Some r\<rparr>)))))"

text \<open>\<open>except Exception as e: print(...)\<close>: the object stays as the exception left it.\<close>

definition caught :: "'a + 'a \<Rightarrow> 'a" where
  "caught x = (case x of Inl s \<Rightarrow> s | Inr s \<Rightarrow> s)"

definition refit_model :: "'m statsmodels \<Rightarrow> 'm linear_model \<Rightarrow> 'm linear_model" where
  "refit_model sm s =
     (if features s = [] \<or> \<not> truthy (kpi s) then s else caught (refit_try sm s))"

definition initialize_model :: "'m statsmodels \<Rightarrow> 'm linear_model \<Rightarrow> 'm linear_model" where
  "initialize_model sm s =
     (if kpi s = None then s
      else
        (case column (model_data s) (kpi s) of
           None \<Rightarrow> s
         | Some y \<Rightarrow>
            (case OLS sm y (add_constant (length y) []) of
               None \<Rightarrow> s
             | Some m \<Rightarrow>
                (case fit sm m of
                   None \<Rightarrow> s\<lparr>model := Some m\<rparr>
                 | Some r \<Rightarrow> s\<lparr>model := Some m, results := Some r\<rparr>))))"

definition mean :: "series \<Rightarrow> real" where
  "mean xs = sum_list xs / real (length xs)"





text \<open>
  \<open>remove_feature\<close>: the feature leaves the feature list, the transformation dict and the
  transformed-data dict; then the model is reinitialised (no feature left) or fitted again.
\<close>

definition remove_feature :: "'m statsmodels \<Rightarrow> 'm linear_model \<Rightarrow> string \<Rightarrow> 'm linear_model" where
  "remove_feature sm s feature_name =
     (if feature_name \<notin> set (features s) then s
      else
        (let s1 = s\<lparr>features := remove1 feature_name (features s),
                    feature_transformations :=
                      AList.delete feature_name (feature_transformations s),
                    transformed_data := AList.delete feature_name (transformed_data s)\<rparr>
         in if features s1 = [] then initialize_model sm s1
            else caught (refit_try sm s1)))"

subsection \<open>Fixed coefficients\<close>

text \<open>
  \<open>set_fixed_coefficient\<close> raises \<open>ValueError\<close> out of the method (\<open>Inl\<close>, with the object as
  it stands at that moment) or stores the value and fits again.
\<close>

text \<open>
  The loop of \<open>_refit_model_with_fixed_coefficients\<close> that subtracts the fixed components
  from the target; a fixed name that is neither \<open>const\<close> nor a feature is skipped.
  \<open>None\<close>: a column lookup raises.
\<close>

fun subtract_fixed ::
  "string list \<Rightarrow> series dict \<Rightarrow> series dict option \<Rightarrow> real dict \<Rightarrow> series \<Rightarrow> series option" where
  "subtract_fixed feats td md [] adjusted_y = Some adjusted_y"
| "subtract_fixed feats td md (vc # rest) adjusted_y =
     (if fst vc = ''const'' then subtract_fixed feats td md rest (sub_scalar adjusted_y (snd vc))
      else if fst vc \<in> set feats then
        (case (case map_of td (fst vc) of
                 Some v \<Rightarrow> Some v
               | None \<Rightarrow> column md (Some (fst vc))) of
           None \<Rightarrow> None
         | Some var_data \<Rightarrow>
             subtract_fixed feats td md rest (series_sub adjusted_y (scale (snd vc) var_data)))
      else subtract_fixed feats td md rest adjusted_y)"

text \<open>\<open>for var, coef in self.fixed_coefficients.items(): params[var] = coef\<close>\<close>

definition override_params :: "real dict \<Rightarrow> real dict \<Rightarrow> real dict" where
  "override_params fixed ps = fold (\<lambda>vc acc. AList.update (fst vc) (snd vc) acc) fixed ps"

text \<open>
  The coefficients of the partly fixed model: the fixed values, then the intercept and the
  remaining features from the regression of the adjusted target.
\<close>

definition merge_params :: "real dict \<Rightarrow> string list \<Rightarrow> real dict \<Rightarrow> real dict \<Rightarrow> real dict" where
  "merge_params fixed remaining_features remaining_params ps =
     (let params1 = override_params fixed ps;
          params2 =
            (if \<not> has_key fixed ''const'' \<and> has_key remaining_params ''const''
             then AList.update ''const'' (the (map_of remaining_params ''const'')) params1
             else params1)
      in fold (\<lambda>feat acc.
                 (case map_of remaining_params feat of
                    Some v \<Rightarrow> AList.update feat v acc
                  | None \<Rightarrow> acc))
           remaining_features params2)"

text \<open>
  \<open>X['const'] = 1.0\<close>, then one column per feature: the design of the full model.
\<close>

definition full_design ::
  "series dict \<Rightarrow> series dict option \<Rightarrow> string list \<Rightarrow> nat \<Rightarrow> series dict option" where
  "full_design td md feats n = feature_columns td md feats [(''const'', replicate n 1)]"

text \<open>
  The branch for a model whose features and intercept are all fixed: the full design is
  fitted and the fixed values are written over the coefficients of that fit.
\<close>

definition fit_all_fixed ::
  "'m statsmodels \<Rightarrow> 'm linear_model \<Rightarrow> series \<Rightarrow> 'm linear_model + 'm linear_model" where
  "fit_all_fixed sm s y =
     (case full_design (transformed_data s) (model_data s) (features s) (length y) of
        None \<Rightarrow> Inl s
      | Some X \<Rightarrow>
         (case OLS sm y X of
            None \<Rightarrow> Inl s
          | Some m \<Rightarrow>
             (case fit sm m of
                None \<Rightarrow> Inl (s\<lparr>model := Some m\<rparr>)
              | Some result \<Rightarrow>
                 Inr (s\<lparr>model := Some m,
                        results := Some (result\<lparr>params :=
                          override_params (fixed_coefficients s) (params result)\<rparr>)\<rparr>))))"

text \<open>
  The branch with something left to estimate: the adjusted target is regressed on the
  remaining features (with an intercept unless it is fixed), the full design is fitted, and
  the coefficients of that fit are overwritten.
\<close>

definition fit_partly_fixed ::
  "'m statsmodels \<Rightarrow> 'm linear_model \<Rightarrow> series \<Rightarrow> series \<Rightarrow> string list \<Rightarrow>
   'm linear_model + 'm linear_model" where
  "fit_partly_fixed sm s y adjusted_y remaining_features =
     (case feature_columns (transformed_data s) (model_data s) remaining_features [] of
        None \<Rightarrow> Inl s
      | Some X0 \<Rightarrow>
         (case OLS sm adjusted_y
                 (if \<not> has_key (fixed_coefficients s) ''const''
                  then add_constant (length y) X0 else X0) of
            None \<Rightarrow> Inl s
          | Some remaining_model \<Rightarrow>
             (case fit sm remaining_model of
                None \<Rightarrow> Inl s
              | Some remaining_results \<Rightarrow>
                 (case full_design (transformed_data s) (model_data s) (features s)
                         (length y) of
                    None \<Rightarrow> Inl s
                  | Some X_full \<Rightarrow>
                     (case OLS sm y X_full of
                        None \<Rightarrow> Inl s
                      | Some m \<Rightarrow>
                         (case fit sm m of
                            None \<Rightarrow> Inl (s\<lparr>model := Some m\<rparr>)
                          | Some r \<Rightarrow>
                             Inr (s\<lparr>model := Some m,
                                    results := Some (r\<lparr>params :=
                                      merge_params (fixed_coefficients s) remaining_features
                                        (params remaining_results) (params r)\<rparr>)\<rparr>)))))))"

text \<open>The body of the \<open>try\<close> block of \<open>_refit_model_with_fixed_coefficients\<close>.\<close>

definition refit_fixed_try ::
  "'m statsmodels \<Rightarrow> 'm linear_model \<Rightarrow> 'm linear_model + 'm linear_model" where
  "refit_fixed_try sm s =
     (case column (model_data s) (kpi s) of
        None \<Rightarrow> Inl s
      | Some y \<Rightarrow>
         if fixed_coefficients s = [] then refit_try sm s
         else
           (case subtract_fixed (features s) (transformed_data s) (model_data s)
                   (fixed_coefficients s) y of
              None \<Rightarrow> Inl s
            | Some adjusted_y \<Rightarrow>
               (let remaining_features =
                      filter (\<lambda>f. \<not> has_key (fixed_coefficients s) f) (features s)
                in if remaining_features = [] \<and> has_key (fixed_coefficients s) ''const''
                   then fit_all_fixed sm s y
                   else fit_partly_fixed sm s y adjusted_y remaining_features)))"

text \<open>
  \<open>if not self.features or not self.kpi or not self.model_data is not None: return\<close>;
  the last test reads \<open>not (self.model_data is not None)\<close>.
\<close>

definition refit_model_with_fixed_coefficients ::
  "'m statsmodels \<Rightarrow> 'm linear_model \<Rightarrow> 'm linear_model" where
  "refit_model_with_fixed_coefficients sm s =
     (if features s = [] \<or> \<not> truthy (kpi s) \<or> model_data s = None then s
      else caught (refit_fixed_try sm s))"

definition set_fixed_coefficient ::
  "'m statsmodels \<Rightarrow> 'm linear_model \<Rightarrow> string \<Rightarrow> real \<Rightarrow>
   (py_error \<times> 'm linear_model) + 'm linear_model" where
  "set_fixed_coefficient sm s variable_name value =
     (if variable_name \<notin> set (features s) \<and> variable_name \<noteq> ''const''
      then Inl (ValueError, s)
      else Inr (refit_model_with_fixed_coefficients sm
                  (s\<lparr>fixed_coefficients :=
                       AList.update variable_name value (fixed_coefficients s)\<rparr>)))"

definition unset_fixed_coefficient ::
  "'m statsmodels \<Rightarrow> 'm linear_model \<Rightarrow> string \<Rightarrow> 'm linear_model" where
  "unset_fixed_coefficient sm s variable_name =
     (if has_key (fixed_coefficients s) variable_name
      then refit_model_with_fixed_coefficients sm
             (s\<lparr>fixed_coefficients := AList.delete variable_name (fixed_coefficients s)\<rparr>)
      else s)"

section \<open>curve_transformations.py: the curve search\<close>












section \<open>decomposition.py: calculate_decomposition\<close>

text \<open>
  A group assignment gives every variable a group name and an adjustment code (\<open>'Min'\<close>,
  \<open>'Max'\<close> or anything else for none; a missing \<open>'Adjustment'\<close> key reads as \<open>''\<close>).
\<close>

record group_info =
  Group :: string
  Adjustment :: string

text \<open>\<open>len(data.index)\<close>: the number of rows of a frame, read off its first column.\<close>

definition index_length :: "series dict \<Rightarrow> nat" where
  "index_length data = (case data of [] \<Rightarrow> 0 | kv # _ \<Rightarrow> length (snd kv))"

text \<open>\<open>data[model.features]\<close>: the named columns in the order asked for; \<open>None\<close> for a KeyError.\<close>

fun select_columns :: "series dict \<Rightarrow> string list \<Rightarrow> series dict option" where
  "select_columns data [] = Some []"
| "select_columns data (f # fs) =
     (case map_of data f of
        None \<Rightarrow> None
      | Some v \<Rightarrow> (case select_columns data fs of None \<Rightarrow> None | Some X \<Rightarrow> Some ((f, v) # X)))"

text \<open>
  The Predicted column: \<open>model.results.predict(sm.add_constant(data[model.features]))\<close>, and
  the stored fitted values when that raises.
\<close>

definition predicted_values :: "results \<Rightarrow> series dict \<Rightarrow> string list \<Rightarrow> series" where
  "predicted_values r data feats =
     (case select_columns data feats of
        None \<Rightarrow> fittedvalues r
      | Some X0 \<Rightarrow>
         (case predict r (index_length data) (add_constant (index_length data) X0) of
            None \<Rightarrow> fittedvalues r
          | Some predictions \<Rightarrow> predictions))"

text \<open>
  The first loop: one contribution \<open>coef * values\<close> per variable of the group assignment
  that has a coefficient and (unless it is \<open>const\<close>) a column in the data.
\<close>

definition contribution_step ::
  "real dict \<Rightarrow> series dict \<Rightarrow> string \<times> group_info \<Rightarrow> series dict \<Rightarrow> series dict" where
  "contribution_step coefficients data vg var_contributions =
     (case map_of coefficients (fst vg) of
        None \<Rightarrow> var_contributions
      | Some coefficient \<Rightarrow>
         if fst vg = ''const''
         then AList.update (fst vg) (scale coefficient (replicate (index_length data) 1))
                var_contributions
         else
           (case map_of data (fst vg) of
              None \<Rightarrow> var_contributions
            | Some values \<Rightarrow> AList.update (fst vg) (scale coefficient values) var_contributions))"

definition individual_contributions ::
  "real dict \<Rightarrow> series dict \<Rightarrow> group_info dict \<Rightarrow> series dict" where
  "individual_contributions coefficients data groups =
     fold (contribution_step coefficients data) groups []"

text \<open>
  The expansion of weighted variables.  A component receives
  \<open>wgtd_contribution * (component_coef / total_weight)\<close>, added to the contribution it
  already has or stored as a new one; a component without a group inherits the group of the
  weighted variable.  The weighted variable's own contribution is deleted first, and only
  when \<open>total_weight > 0\<close>.
\<close>

definition share :: "series \<Rightarrow> real \<Rightarrow> real \<Rightarrow> series" where
  "share wgtd_contribution component_coef total_weight =
     map (\<lambda>v. v * (component_coef / total_weight)) wgtd_contribution"

definition add_to_column :: "string \<Rightarrow> series \<Rightarrow> series dict \<Rightarrow> series dict" where
  "add_to_column component x d =
     (case map_of d component of
        Some old \<Rightarrow> AList.update component (series_add old x) d
      | None \<Rightarrow> AList.update component x d)"

definition total_weight_of :: "real dict \<Rightarrow> real" where
  "total_weight_of components = sum_list (map (\<lambda>c. \<bar>snd c\<bar>) components)"

definition add_component ::
  "series \<Rightarrow> real \<Rightarrow> string \<Rightarrow> string \<times> real \<Rightarrow>
   series dict \<times> group_info dict \<Rightarrow> series dict \<times> group_info dict" where
  "add_component wgtd_contribution total_weight wgtd_var cc st =
     (add_to_column (fst cc) (share wgtd_contribution (snd cc) total_weight) (fst st),
      if \<not> has_key (snd st) (fst cc) \<and> has_key (snd st) wgtd_var
      then AList.update (fst cc) (the (map_of (snd st) wgtd_var)) (snd st)
      else snd st)"

definition expand_weighted ::
  "string \<times> real dict \<Rightarrow> series dict \<times> group_info dict \<Rightarrow> series dict \<times> group_info dict" where
  "expand_weighted wv st =
     (case map_of (fst st) (fst wv) of
        None \<Rightarrow> st
      | Some wgtd_contribution \<Rightarrow>
         if total_weight_of (snd wv) > 0
         then fold (add_component wgtd_contribution (total_weight_of (snd wv)) (fst wv)) (snd wv)
                (AList.delete (fst wv) (fst st), snd st)
         else st)"

definition expand_all ::
  "real dict dict option \<Rightarrow> series dict \<times> group_info dict \<Rightarrow> series dict \<times> group_info dict" where
  "expand_all wgtd st = (case wgtd of None \<Rightarrow> st | Some ws \<Rightarrow> fold expand_weighted ws st)"

text \<open>
  The grouping loop.  \<open>contribution.min()\<close> of an empty series is NaN in pandas; a frame
  without rows has nothing to adjust, and the model returns 0 there.
\<close>

fun series_min :: "series \<Rightarrow> real" where
  "series_min [] = 0"
| "series_min (x # xs) = fold min xs x"

fun series_max :: "series \<Rightarrow> real" where
  "series_max [] = 0"
| "series_max (x # xs) = fold max xs x"

text \<open>
  \<^verbatim>\<open>
  if group_name not in grouped_contributions:
      grouped_contributions[group_name] = pd.Series(0, index=data.index)
  \<close>
\<close>

definition initialize_group :: "nat \<Rightarrow> string \<Rightarrow> series dict \<Rightarrow> series dict" where
  "initialize_group n group_name grouped =
     (if has_key grouped group_name then grouped
      else AList.update group_name (replicate n 0) grouped)"

definition group_step ::
  "group_info dict \<Rightarrow> nat \<Rightarrow> string \<times> series \<Rightarrow>
   series dict \<times> real dict \<Rightarrow> series dict \<times> real dict" where
  "group_step groups n vc st =
     (case map_of groups (fst vc) of
        None \<Rightarrow> st
      | Some gi \<Rightarrow>
         (let grouped = initialize_group n (Group gi) (fst st);
              current = the (map_of grouped (Group gi))
          in if Adjustment gi = ''Min'' then
               (AList.update (Group gi)
                  (series_add current (sub_scalar (snd vc) (series_min (snd vc)))) grouped,
                AList.update (fst vc) (series_min (snd vc)) (snd st))
             else if Adjustment gi = ''Max'' then
               (AList.update (Group gi)
                  (series_add current (sub_scalar (snd vc) (series_max (snd vc)))) grouped,
                AList.update (fst vc) (series_max (snd vc)) (snd st))
             else
               (AList.update (Group gi) (series_add current (snd vc)) grouped, snd st)))"

text \<open>
  The reconciliation:
  \<^verbatim>\<open>
  if 'Base' in grouped_contributions and adjustment_values:
      total_adjustment = sum(adjustment_values.values())
      base_contribution = grouped_contributions['Base']
      for i in range(len(base_contribution)):
          base_contribution.iloc[i] += total_adjustment
  \<close>
\<close>

definition add_total_adjustment :: "series dict \<Rightarrow> real dict \<Rightarrow> series dict" where
  "add_total_adjustment grouped adjustment_values =
     (if has_key grouped ''Base'' \<and> adjustment_values \<noteq> [] then
        AList.update ''Base''
          (fold (\<lambda>i b. b[i := b ! i + sum_list (map snd adjustment_values)])
             [0..<length (the (map_of grouped ''Base''))] (the (map_of grouped ''Base'')))
          grouped
      else grouped)"

definition grouped_contributions ::
  "'m linear_model \<Rightarrow> results \<Rightarrow> series dict \<Rightarrow> group_info dict \<Rightarrow> series dict \<times> real dict" where
  "grouped_contributions s r data groups =
     (let expanded = expand_all (wgtd_variables s)
                       (individual_contributions (params r) data groups, groups)
      in fold (group_step (snd expanded) (index_length data)) (fst expanded) ([], []))"

text \<open>
  The whole function.  \<open>None\<close>: it raises (no results, no data, or no KPI column).  The
  result is the frame with the columns \<open>Actual\<close>, \<open>Predicted\<close> and one column per group.
\<close>

definition calculate_decomposition ::
  "'m linear_model \<Rightarrow> group_info dict \<Rightarrow> series dict option" where
  "calculate_decomposition s groups =
     (case results s of
        None \<Rightarrow> None
      | Some r \<Rightarrow>
         (case model_data s of
            None \<Rightarrow> None
          | Some data \<Rightarrow>
             (case column (Some data) (kpi s) of
                None \<Rightarrow> None
              | Some actual \<Rightarrow>
                 Some (fold (\<lambda>gc df. AList.update (fst gc) (snd gc) df)
                         (add_total_adjustment
                            (fst (grouped_contributions s r data groups))
                            (snd (grouped_contributions s r data groups)))
                         [(''Actual'', actual),
                          (''Predicted'', predicted_values r data (features s))]))))"

text \<open>
  \<open>expand_weighted_variable_contributions\<close>, the second place where weighted variables are
  expanded: on the columns of a frame, with the same shares; the weighted variable's column
  is dropped after its components are added.
\<close>

definition expand_column :: "string \<times> real dict \<Rightarrow> series dict \<Rightarrow> series dict" where
  "expand_column wv df =
     (if \<not> has_key df (fst wv) then df
      else if snd wv = [] then df
      else
        AList.delete (fst wv)
          (fold (\<lambda>cc d. if total_weight_of (snd wv) \<noteq> 0
                         then add_to_column (fst cc)
                                (share (the (map_of df (fst wv))) (snd cc)
                                   (total_weight_of (snd wv))) d
                         else d)
             (snd wv) df))"

definition expand_weighted_variable_contributions ::
  "'m linear_model \<Rightarrow> series dict \<Rightarrow> series dict" where
  "expand_weighted_variable_contributions s contributions_df =
     (case wgtd_variables s of
        None \<Rightarrow> contributions_df
      | Some ws \<Rightarrow> if ws = [] then contributions_df else fold expand_column ws contributions_df)"

text \<open>The sum of all columns of a frame, and of its group columns, at row \<open>t\<close>.\<close>

definition total :: "series dict \<Rightarrow> nat \<Rightarrow> real" where
  "total d t = sum_list (map (\<lambda>kv. snd kv ! t) d)"

definition group_columns :: "series dict \<Rightarrow> series dict" where
  "group_columns df = filter (\<lambda>kv. fst kv \<noteq> ''Actual'' \<and> fst kv \<noteq> ''Predicted'') df"

section \<open>Example data\<close>

text \<open>
  Three weeks of data with \<open>Sales = TV\<close>.  On them the least-squares line of \<open>Sales\<close> on
  \<open>TV\<close> with an intercept is \<open>0 + 1 * TV\<close> with \<open>R\<^sup>2 = 1\<close>, and the regression of
  \<open>Sales - 2 * TV = [-1, -2, -3]\<close> on the intercept alone is the mean \<open>-2\<close> with
  \<open>R\<^sup>2 = 0\<close>.  \<open>example_sm\<close> is a regression library that knows these two designs and
  raises on every other; \<open>failing_sm\<close> builds every design and fails to fit it.
\<close>

definition example_data :: "series dict" where
  "example_data = [(''Sales'', [1, 2, 3]), (''TV'', [1, 2, 3])]"

definition example_fit :: "series \<times> series dict \<Rightarrow> results option" where
  "example_fit m =
     (if m = ([1, 2, 3], [(''const'', [1, 1, 1]), (''TV'', [1, 2, 3])]) then
        Some \<lparr>params = [(''const'', 0), (''TV'', 1)], fitted_params = [(''const'', 0), (''TV'', 1)],
              rsquared = 1,
              resid = [0, 0, 0], fittedvalues = [1, 2, 3]\<rparr>
      else if m = ([-1, -2, -3], [(''const'', [1, 1, 1])]) then
        Some \<lparr>params = [(''const'', -2)], fitted_params = [(''const'', -2)],
              rsquared = 0,
              resid = [1, 0, -1], fittedvalues = [-2, -2, -2]\<rparr>
      else None)"

definition example_sm :: "(series \<times> series dict) statsmodels" where
  "example_sm = \<lparr>OLS = (\<lambda>y X. Some (y, X)), fit = example_fit\<rparr>"


definition example_model :: "(series \<times> series dict) linear_model" where
  "example_model =
     \<lparr>model_data = Some example_data, kpi = Some ''Sales'', features = [''TV''],
      feature_transformations = [], transformed_data = [], model = None,
      results = Some \<lparr>params = [(''const'', 0), (''TV'', 1)], fitted_params = [(''const'', 0), (''TV'', 1)],
              rsquared = 1,
                      resid = [0, 0, 0], fittedvalues = [1, 2, 3]\<rparr>,
      loader = None, fixed_coefficients = [], wgtd_variables = None\<rparr>"


text \<open>A model whose only feature \<open>TV\<close> has a fixed coefficient.\<close>

definition fixed_tv_model :: "(series \<times> series dict) linear_model" where
  "fixed_tv_model = example_model\<lparr>fixed_coefficients := [(''TV'', 2)]\<rparr>"

text \<open>The example model with the intercept fixed at the mean of \<open>Sales\<close> and \<open>TV\<close> at zero.\<close>

definition all_fixed_model :: "(series \<times> series dict) linear_model" where
  "all_fixed_model = example_model\<lparr>fixed_coefficients := [(''const'', 2), (''TV'', 0)]\<rparr>"

text \<open>
  The coefficient of determination as the specification defines it, \<open>R\<^sup>2 = 1 - SSR/SST\<close>,
  computed from the residuals of the target against given fitted values.
\<close>

definition rsquared_of_fitted :: "series \<Rightarrow> series \<Rightarrow> real" where
  "rsquared_of_fitted y fitted =
     1 - sum_list (map (\<lambda>e. e * e) (series_sub y fitted))
         / sum_list (map (\<lambda>v. (v - mean y) * (v - mean y)) y)"


text \<open>
  A frame with \<open>n\<close> rows: column names are unique and every column has \<open>n\<close> values.
\<close>

definition well_formed :: "nat \<Rightarrow> series dict \<Rightarrow> bool" where
  "well_formed n d = (distinct (keys d) \<and> list_all (\<lambda>kv. length (snd kv) = n) d)"

text \<open>
  A group assignment for the example model: the intercept is in \<open>Base\<close>, and \<open>TV\<close> is in
  \<open>Media\<close> with the adjustment \<open>Min\<close>.
\<close>

definition base_groups :: "group_info dict" where
  "base_groups =
     [(''const'', \<lparr>Group = ''Base'', Adjustment = ''''\<rparr>),
      (''TV'', \<lparr>Group = ''Media'', Adjustment = ''Min''\<rparr>)]"

text \<open>The same assignment with the intercept in \<open>Other\<close>: no variable is in \<open>Base\<close>.\<close>

definition no_base_groups :: "group_info dict" where
  "no_base_groups =
     [(''const'', \<lparr>Group = ''Other'', Adjustment = ''''\<rparr>),
      (''TV'', \<lparr>Group = ''Media'', Adjustment = ''Min''\<rparr>)]"







subsection \<open>The loop invariant\<close>

lemma adstock_fold_invariant:
  "k \<le> length x \<Longrightarrow>
   length (fold (adstock_step x r) [1..<k] x) = length x \<and>
   (\<forall>i<k. fold (adstock_step x r) [1..<k] x ! i =
      (if i = 0 then x ! 0 else x ! i + r * fold (adstock_step x r) [1..<k] x ! (i - 1))) \<and>
   (\<forall>i. k \<le> i \<longrightarrow> fold (adstock_step x r) [1..<k] x ! i = x ! i)"
proof (induction k)
  case 0
  then show ?case by simp
next
  case (Suc k)
  show ?case
  proof (cases "k = 0")
    case True
    then show ?thesis by simp
  next
    case False
    define res where "res = fold (adstock_step x r) [1..<k] x"
    from Suc have klt: "k < length x" and kle: "k \<le> length x" by simp_all
    from Suc.IH [OF kle] have len: "length res = length x"
      and old: "\<And>i. i < k \<Longrightarrow>
        res ! i = (if i = 0 then x ! 0 else x ! i + r * res ! (i - 1))"
      and rest: "\<And>i. k \<le> i \<Longrightarrow> res ! i = x ! i"
      by (simp_all add: res_def)
    from False have upt: "[1..<Suc k] = [1..<k] @ [k]" by simp
    have new: "fold (adstock_step x r) [1..<Suc k] x = res[k := x ! k + r * res ! (k - 1)]"
      by (simp only: upt fold_append comp_apply fold_simps res_def adstock_step_def)
    have "length (res[k := x ! k + r * res ! (k - 1)]) = length x"
      using len by simp
    moreover have "\<forall>i<Suc k. (res[k := x ! k + r * res ! (k - 1)]) ! i =
        (if i = 0 then x ! 0
         else x ! i + r * (res[k := x ! k + r * res ! (k - 1)]) ! (i - 1))"
    proof (intro allI impI)
      fix i assume i: "i < Suc k"
      show "(res[k := x ! k + r * res ! (k - 1)]) ! i =
        (if i = 0 then x ! 0
         else x ! i + r * (res[k := x ! k + r * res ! (k - 1)]) ! (i - 1))"
      proof (cases "i = k")
        case True
        with False klt len show ?thesis by simp
      next
        case ne: False
        with i have "i < k" by simp
        with old [of i] ne show ?thesis by simp
      qed
    qed
    moreover have "\<forall>i. Suc k \<le> i \<longrightarrow> (res[k := x ! k + r * res ! (k - 1)]) ! i = x ! i"
      using rest by simp
    ultimately show ?thesis by (simp only: new)
  qed
qed

section \<open>Adstock\<close>

text \<open>
  C9. For every input series \<open>x\<close> and every rate (in particular every rate in \<open>[0,1)\<close>),
  \<open>apply_adstock\<close> returns a series \<open>y\<close> of the length of \<open>x\<close> with \<open>y[0] = x[0]\<close> and
  \<open>y[i] = x[i] + rate * y[i-1]\<close> for every \<open>i > 0\<close>; for rate \<open>0\<close> it returns \<open>x\<close> itself.
\<close>

theorem apply_adstock_recurrence:
  "length (apply_adstock x rate) = length x \<and>
   (\<forall>i<length x. apply_adstock x rate ! i =
      (if i = 0 then x ! 0 else x ! i + rate * apply_adstock x rate ! (i - 1))) \<and>
   apply_adstock x 0 = x"
proof (cases "rate = 0")
  case True
  then show ?thesis by (simp add: apply_adstock_def)
next
  case False
  from adstock_fold_invariant [of "length x" x rate] False
  show ?thesis by (simp add: apply_adstock_def)
qed

theorem apply_adstock_recurrence_witness:
  "apply_adstock [4, 2, 1] (1/2) = [4, 4, 3] \<and> apply_adstock [4, 2, 1] 0 = [4, 2, 1]"
proof -
  have u: "[1..<3] = [1, 2]" by (simp add: upt_rec)
  have v: "apply_adstock [4, 2, 1] (1/2) = [4, 4, 3]"
    by (simp add: apply_adstock_def adstock_step_def u)
  from apply_adstock_recurrence [of "[4, 2, 1]" "1/2"] v
  show ?thesis by (simp add: apply_adstock_def)
qed

section \<open>Fitting and fixed coefficients\<close>

text \<open>
  Every fitting method leaves the object as it was apart from \<open>model\<close> and \<open>results\<close>.
\<close>

lemma raised_or_done_shape:
  "s' = s \<or> (\<exists>m. s' = s\<lparr>model := Some m\<rparr>) \<or> (\<exists>m r. s' = s\<lparr>model := Some m, results := Some r\<rparr>)
   \<Longrightarrow> \<exists>m r. s' = s\<lparr>model := m, results := r\<rparr>"
proof (elim disjE exE)
  assume "s' = s"
  then have "s' = s\<lparr>model := model s, results := results s\<rparr>" by simp
  then show ?thesis by blast
next
  fix m assume "s' = s\<lparr>model := Some m\<rparr>"
  then have "s' = s\<lparr>model := Some m, results := results s\<rparr>" by simp
  then show ?thesis by blast
next
  fix m r assume "s' = s\<lparr>model := Some m, results := Some r\<rparr>"
  then show ?thesis by blast
qed

lemma refit_try_shape:
  "refit_try sm s = Inl s' \<or> refit_try sm s = Inr s' \<Longrightarrow>
   \<exists>m r. s' = s\<lparr>model := m, results := r\<rparr>"
  by (rule raised_or_done_shape) (auto simp: refit_try_def split: option.splits)

lemma refit_try_raised:
  "refit_try sm s = Inl s' \<Longrightarrow> \<exists>m. s' = s\<lparr>model := m\<rparr>"
proof -
  assume "refit_try sm s = Inl s'"
  then have "s' = s \<or> (\<exists>m. s' = s\<lparr>model := Some m\<rparr>)"
    by (auto simp: refit_try_def split: option.splits)
  then show ?thesis
  proof
    assume "s' = s"
    then have "s' = s\<lparr>model := model s\<rparr>" by simp
    then show ?thesis by blast
  qed blast
qed


lemma initialize_model_shape:
  "\<exists>m r. initialize_model sm s = s\<lparr>model := m, results := r\<rparr>"
  by (rule raised_or_done_shape) (auto simp: initialize_model_def split: option.splits)

lemma fit_all_fixed_shape:
  "fit_all_fixed sm s y = Inl s' \<or> fit_all_fixed sm s y = Inr s' \<Longrightarrow>
   \<exists>m r. s' = s\<lparr>model := m, results := r\<rparr>"
  by (rule raised_or_done_shape) (auto simp: fit_all_fixed_def split: option.splits)

lemma fit_partly_fixed_shape:
  "fit_partly_fixed sm s y ay rem = Inl s' \<or> fit_partly_fixed sm s y ay rem = Inr s' \<Longrightarrow>
   \<exists>m r. s' = s\<lparr>model := m, results := r\<rparr>"
  by (rule raised_or_done_shape) (auto simp: fit_partly_fixed_def split: option.splits)

lemma refit_fixed_try_shape:
  assumes a: "refit_fixed_try sm s = Inl s' \<or> refit_fixed_try sm s = Inr s'"
  shows "\<exists>m r. s' = s\<lparr>model := m, results := r\<rparr>"
proof -
  from a consider "s' = s"
    | "refit_try sm s = Inl s' \<or> refit_try sm s = Inr s'"
    | y where "fit_all_fixed sm s y = Inl s' \<or> fit_all_fixed sm s y = Inr s'"
    | y ay rem where
        "fit_partly_fixed sm s y ay rem = Inl s' \<or> fit_partly_fixed sm s y ay rem = Inr s'"
    unfolding refit_fixed_try_def Let_def
    by (auto split: option.splits if_splits)
  then show ?thesis
  proof cases
    case 1
    then show ?thesis by (intro raised_or_done_shape) simp
  next
    case 2
    then show ?thesis by (rule refit_try_shape)
  next
    case 3
    then show ?thesis by (rule fit_all_fixed_shape)
  next
    case 4
    then show ?thesis by (rule fit_partly_fixed_shape)
  qed
qed

lemma refit_with_fixed_shape:
  "\<exists>m r. refit_model_with_fixed_coefficients sm s = s\<lparr>model := m, results := r\<rparr>"
proof (cases "features s = [] \<or> \<not> truthy (kpi s) \<or> model_data s = None")
  case True
  then have "refit_model_with_fixed_coefficients sm s = s"
    by (auto simp: refit_model_with_fixed_coefficients_def)
  then show ?thesis by (intro raised_or_done_shape) simp
next
  case False
  then have eq: "refit_model_with_fixed_coefficients sm s = caught (refit_fixed_try sm s)"
    by (auto simp: refit_model_with_fixed_coefficients_def)
  show ?thesis
  proof (cases "refit_fixed_try sm s")
    case (Inl a)
    with refit_fixed_try_shape [of sm s a] eq show ?thesis by (simp add: caught_def)
  next
    case (Inr b)
    with refit_fixed_try_shape [of sm s b] eq show ?thesis by (simp add: caught_def)
  qed
qed

lemma refit_try_cong:
  assumes "refit_try sm s = Inr s'"
    and "features t = features s" "kpi t = kpi s" "model_data t = model_data s"
    and "transformed_data t = transformed_data s"
  shows "\<exists>t'. refit_try sm t = Inr t' \<and> results t' = results s' \<and> model t' = model s'"
  using assms by (auto simp: refit_try_def split: option.splits)

text \<open>
  C10. \<open>set_fixed_coefficient(v, c)\<close> raises \<open>ValueError\<close> when \<open>v\<close> is neither a feature of
  the model nor \<open>const\<close>, and the object is then exactly as it was before the call: the test
  comes before any assignment.
\<close>

theorem set_fixed_coefficient_rejects_unknown:
  "variable_name \<notin> set (features s) \<and> variable_name \<noteq> ''const'' \<Longrightarrow>
   set_fixed_coefficient sm s variable_name value = Inl (ValueError, s)"
  by (simp add: set_fixed_coefficient_def)

theorem set_fixed_coefficient_rejects_unknown_witness:
  "set_fixed_coefficient example_sm example_model ''Radio'' 2 = Inl (ValueError, example_model)"
  using set_fixed_coefficient_rejects_unknown [of "''Radio''" example_model example_sm 2]
  by (simp add: example_model_def)

lemma delete_only_key:
  "set (keys d) \<subseteq> {v} \<Longrightarrow> AList.delete v d = []"
  by (induction d) (auto simp: keys_def)

text \<open>
  C4. Take a model with no fixed coefficient other than possibly \<open>v\<close>'s, a feature \<open>v\<close>, and
  suppose the ordinary fit of its features completes.  Then \<open>set_fixed_coefficient(v, c)\<close>
  followed by \<open>unset_fixed_coefficient(v)\<close> leaves no fixed coefficient and leaves as
  \<open>results\<close> the very results of that ordinary fit.
\<close>

theorem fix_unfix_round_trip:
  assumes only: "set (keys (fixed_coefficients s)) \<subseteq> {v}"
    and v: "v \<in> set (features s)"
    and k: "truthy (kpi s)"
    and ols: "refit_try sm s = Inr s_ols"
  shows "\<exists>s1. set_fixed_coefficient sm s v c = Inr s1 \<and>
           fixed_coefficients (unset_fixed_coefficient sm s1 v) = [] \<and>
           results (unset_fixed_coefficient sm s1 v) = results s_ols"
proof -
  define s0 where "s0 = s\<lparr>fixed_coefficients := AList.update v c (fixed_coefficients s)\<rparr>"
  define s1 where "s1 = refit_model_with_fixed_coefficients sm s0"
  define s2 where "s2 = s1\<lparr>fixed_coefficients := AList.delete v (fixed_coefficients s1)\<rparr>"
  have set: "set_fixed_coefficient sm s v c = Inr s1"
    using v by (simp add: set_fixed_coefficient_def s1_def s0_def)
  from refit_with_fixed_shape [of sm s0] obtain m r where
    "s1 = s0\<lparr>model := m, results := r\<rparr>" unfolding s1_def by blast
  then have f1: "features s1 = features s" "kpi s1 = kpi s" "model_data s1 = model_data s"
    "transformed_data s1 = transformed_data s"
    "fixed_coefficients s1 = AList.update v c (fixed_coefficients s)"
    by (simp_all add: s0_def)
  have has: "has_key (fixed_coefficients s1) v"
    by (simp add: f1 has_key_def keys_def AList.dom_update)
  have empty: "fixed_coefficients s2 = []"
    using only by (simp add: s2_def f1 AList.delete_update_same delete_only_key)
  have f2: "features s2 = features s" "kpi s2 = kpi s" "model_data s2 = model_data s"
    "transformed_data s2 = transformed_data s"
    by (simp_all add: s2_def f1)
  from refit_try_cong [OF ols f2] obtain t' where
    t': "refit_try sm s2 = Inr t'" "results t' = results s_ols" by blast
  from ols have col: "column (model_data s) (kpi s) \<noteq> None" "model_data s \<noteq> None"
    by (auto simp: refit_try_def column_def split: option.splits)
  have "refit_model_with_fixed_coefficients sm s2 = t'"
    using v k col t' empty
    by (auto simp: refit_model_with_fixed_coefficients_def refit_fixed_try_def f2 caught_def
        split: option.splits)
  then have "unset_fixed_coefficient sm s1 v = t'"
    using has by (simp add: unset_fixed_coefficient_def s2_def)
  moreover have "fixed_coefficients t' = []"
    using refit_try_shape [of sm s2 t'] t' empty by auto
  ultimately show ?thesis using set t' by simp
qed

lemma example_refit:
  "refit_try example_sm example_model =
     Inr (example_model\<lparr>model := Some ([1, 2, 3], [(''const'', [1, 1, 1]), (''TV'', [1, 2, 3])]),
                        results := Some \<lparr>params = [(''const'', 0), (''TV'', 1)], fitted_params = [(''const'', 0), (''TV'', 1)],
              rsquared = 1,
                                         resid = [0, 0, 0], fittedvalues = [1, 2, 3]\<rparr>\<rparr>)"
  by (simp add: refit_try_def example_model_def example_data_def column_def example_sm_def
      example_fit_def add_constant_def is_const_column_def numeral_3_eq_3)

theorem fix_unfix_round_trip_witness:
  "\<exists>s1. set_fixed_coefficient example_sm example_model ''TV'' 2 = Inr s1 \<and>
        results (unset_fixed_coefficient example_sm s1 ''TV'') =
          Some \<lparr>params = [(''const'', 0), (''TV'', 1)], fitted_params = [(''const'', 0), (''TV'', 1)],
              rsquared = 1,
                resid = [0, 0, 0], fittedvalues = [1, 2, 3]\<rparr>"
proof -
  have a: "set (keys (fixed_coefficients example_model)) \<subseteq> {''TV''}"
    by (simp add: example_model_def keys_def)
  have b: "''TV'' \<in> set (features example_model)" by (simp add: example_model_def)
  have c: "truthy (kpi example_model)" by (simp add: example_model_def truthy_def)
  from fix_unfix_round_trip [OF a b c example_refit, of 2] show ?thesis by auto
qed

section \<open>Adding and removing features\<close>








section \<open>Removing a feature with a fixed coefficient\<close>

lemma remove_feature_fixed_coefficients:
  "fixed_coefficients (remove_feature sm s f) = fixed_coefficients s"
proof (cases "f \<in> set (features s)")
  case False
  then show ?thesis by (simp add: remove_feature_def)
next
  case True
  define s1 where "s1 = s\<lparr>features := remove1 f (features s),
                    feature_transformations := AList.delete f (feature_transformations s),
                    transformed_data := AList.delete f (transformed_data s)\<rparr>"
  have eq: "remove_feature sm s f =
      (if features s1 = [] then initialize_model sm s1 else caught (refit_try sm s1))"
    using True by (simp add: remove_feature_def s1_def Let_def)
  have fc: "fixed_coefficients s1 = fixed_coefficients s" by (simp add: s1_def)
  show ?thesis
  proof (cases "features s1 = []")
    case True
    from initialize_model_shape [of sm s1] obtain m r where
      "initialize_model sm s1 = s1\<lparr>model := m, results := r\<rparr>" by blast
    with True eq fc show ?thesis by simp
  next
    case False
    show ?thesis
    proof (cases "refit_try sm s1")
      case (Inl a)
      with refit_try_shape [of sm s1 a] False eq fc show ?thesis by (auto simp: caught_def)
    next
      case (Inr b)
      with refit_try_shape [of sm s1 b] False eq fc show ?thesis by (auto simp: caught_def)
    qed
  qed
qed

text \<open>
  C7. \<open>remove_feature\<close> never touches \<open>fixed_coefficients\<close> (lemma above).  On the model
  whose only feature \<open>TV\<close> has the fixed coefficient 2, \<open>remove_feature('TV')\<close> empties the
  feature list and keeps the entry \<open>TV\<close> among the fixed coefficients: afterwards a fixed
  coefficient names a variable that is neither a feature nor \<open>const\<close>.
\<close>

theorem remove_feature_keeps_fixed_coefficient:
  "features (remove_feature example_sm fixed_tv_model ''TV'') = [] \<and>
   fixed_coefficients (remove_feature example_sm fixed_tv_model ''TV'') = [(''TV'', 2)] \<and>
   has_key (fixed_coefficients (remove_feature example_sm fixed_tv_model ''TV'')) ''TV'' \<and>
   ''TV'' \<notin> set (features (remove_feature example_sm fixed_tv_model ''TV'')) \<union> {''const''}"
proof -
  have "features (remove_feature example_sm fixed_tv_model ''TV'') = []"
    by (simp add: remove_feature_def fixed_tv_model_def example_model_def Let_def
        initialize_model_def column_def example_data_def example_sm_def example_fit_def
        add_constant_def numeral_3_eq_3)
  moreover have "fixed_coefficients (remove_feature example_sm fixed_tv_model ''TV'') =
      [(''TV'', 2)]"
    by (simp add: remove_feature_fixed_coefficients fixed_tv_model_def)
  ultimately show ?thesis by (simp add: has_key_def keys_def)
qed

section \<open>The refit with every coefficient fixed\<close>

lemma feature_columns_lookup:
  "feature_columns td md feats X0 = Some X \<Longrightarrow> f \<in> set feats \<Longrightarrow>
   (case map_of td f of Some v \<Rightarrow> Some v | None \<Rightarrow> column md (Some f)) \<noteq> None"
  by (induction feats arbitrary: X0) (auto split: option.splits)

lemma subtract_fixed_total:
  "(\<And>f. f \<in> set feats \<Longrightarrow>
      (case map_of td f of Some v \<Rightarrow> Some v | None \<Rightarrow> column md (Some f)) \<noteq> None) \<Longrightarrow>
   subtract_fixed feats td md fixed y \<noteq> None"
proof (induction fixed arbitrary: y)
  case Nil
  then show ?case by simp
next
  case (Cons vc fixed)
  show ?case
  proof (cases "fst vc \<noteq> ''const'' \<and> fst vc \<in> set feats")
    case True
    with Cons.prems [of "fst vc"] obtain d where
      "(case map_of td (fst vc) of Some v \<Rightarrow> Some v | None \<Rightarrow> column md (Some (fst vc))) = Some d"
      by auto
    with True Cons.IH [OF Cons.prems] show ?thesis by simp
  next
    case False
    with Cons.IH [OF Cons.prems] show ?thesis by auto
  qed
qed

lemma map_of_override_params:
  "distinct (keys fixed) \<Longrightarrow>
   map_of (override_params fixed ps) k =
     (case map_of fixed k of Some c \<Rightarrow> Some c | None \<Rightarrow> map_of ps k)"
proof (induction fixed arbitrary: ps)
  case Nil
  then show ?case by (simp add: override_params_def)
next
  case (Cons vc fixed)
  from Cons.prems have d: "distinct (keys fixed)" and nin: "fst vc \<notin> set (keys fixed)"
    by (simp_all add: keys_def)
  have step: "\<And>a b. override_params ((a, b) # fixed) ps =
      override_params fixed (AList.update a b ps)"
    by (simp add: override_params_def)
  from nin have none: "map_of fixed (fst vc) = None"
    by (simp add: keys_def map_of_eq_None_iff)
  show ?case
    using Cons.IH [OF d, of "AList.update (fst vc) (snd vc) ps"] none
    by (cases vc) (auto simp: step AList.update_conv' split: option.splits)
qed

text \<open>
  C5 (as the code has it).  When the model has a KPI and at least one feature, every
  feature and the intercept have fixed coefficients, the column lookups succeed and the
  ordinary fit \<open>r\<close> of the target on the full design completes,
  the refit runs no regression on the adjusted target: \<open>results\<close> is \<open>r\<close> with the supplied
  values written over its coefficients.  Each fixed name reports its supplied value, and
  \<open>R\<^sup>2\<close>, the residuals and the fitted values are those of the unconstrained fit \<open>r\<close>.
\<close>

theorem all_fixed_refit_keeps_ols_statistics:
  assumes feats: "features s \<noteq> []" and target: "truthy (kpi s)"
    and all_fixed: "list_all (has_key (fixed_coefficients s)) (features s)"
    and const_fixed: "has_key (fixed_coefficients s) ''const''"
    and dist: "distinct (keys (fixed_coefficients s))"
    and y: "column (model_data s) (kpi s) = Some y"
    and X: "full_design (transformed_data s) (model_data s) (features s) (length y) = Some X"
    and m: "OLS sm y X = Some m" and r: "fit sm m = Some r"
  shows "results (refit_model_with_fixed_coefficients sm s) =
           Some (r\<lparr>params := override_params (fixed_coefficients s) (params r)\<rparr>) \<and>
         list_all (\<lambda>vc. map_of (override_params (fixed_coefficients s) (params r)) (fst vc)
                          = Some (snd vc)) (fixed_coefficients s) \<and>
         rsquared (the (results (refit_model_with_fixed_coefficients sm s))) = rsquared r \<and>
         resid (the (results (refit_model_with_fixed_coefficients sm s))) = resid r \<and>
         fittedvalues (the (results (refit_model_with_fixed_coefficients sm s))) =
           fittedvalues r \<and>
         fitted_params (the (results (refit_model_with_fixed_coefficients sm s))) =
           fitted_params r \<and>
         model (refit_model_with_fixed_coefficients sm s) = Some m"
proof -
  from y have md: "model_data s \<noteq> None" by (auto simp: column_def split: option.splits)
  from const_fixed have ne: "fixed_coefficients s \<noteq> []" by (auto simp: has_key_def keys_def)
  have rem: "filter (\<lambda>f. \<not> has_key (fixed_coefficients s) f) (features s) = []"
    using all_fixed by (simp add: filter_empty_conv list_all_iff)
  have "subtract_fixed (features s) (transformed_data s) (model_data s)
          (fixed_coefficients s) y \<noteq> None"
    using X by (intro subtract_fixed_total) (rule feature_columns_lookup, simp add: full_design_def)
  then obtain ay where ay: "subtract_fixed (features s) (transformed_data s) (model_data s)
          (fixed_coefficients s) y = Some ay" by blast
  have "refit_fixed_try sm s = fit_all_fixed sm s y"
    by (simp add: refit_fixed_try_def y ne ay rem const_fixed)
  also have "\<dots> = Inr (s\<lparr>model := Some m,
       results := Some (r\<lparr>params := override_params (fixed_coefficients s) (params r)\<rparr>)\<rparr>)"
    by (simp add: fit_all_fixed_def X m r)
  finally have "refit_model_with_fixed_coefficients sm s = s\<lparr>model := Some m,
       results := Some (r\<lparr>params := override_params (fixed_coefficients s) (params r)\<rparr>)\<rparr>"
    using feats target md by (auto simp: refit_model_with_fixed_coefficients_def caught_def)
  moreover have "list_all (\<lambda>vc. map_of (override_params (fixed_coefficients s) (params r)) (fst vc)
                          = Some (snd vc)) (fixed_coefficients s)"
    unfolding list_all_iff
  proof
    fix vc assume "vc \<in> set (fixed_coefficients s)"
    with dist have "map_of (fixed_coefficients s) (fst vc) = Some (snd vc)"
      by (cases vc) (simp add: keys_def)
    with map_of_override_params [OF dist, of "params r" "fst vc"]
    show "map_of (override_params (fixed_coefficients s) (params r)) (fst vc) = Some (snd vc)"
      by simp
  qed
  ultimately show ?thesis by simp
qed

lemma all_fixed_example:
  "results (refit_model_with_fixed_coefficients example_sm all_fixed_model) =
     Some \<lparr>params = [(''const'', 2), (''TV'', 0)], fitted_params = [(''const'', 0), (''TV'', 1)],
              rsquared = 1,
           resid = [0, 0, 0], fittedvalues = [1, 2, 3]\<rparr>"
  by (simp add: refit_model_with_fixed_coefficients_def all_fixed_model_def example_model_def
      truthy_def caught_def refit_fixed_try_def column_def example_data_def has_key_def keys_def
      sub_scalar_def series_sub_def scale_def fit_all_fixed_def full_design_def example_sm_def
      example_fit_def override_params_def numeral_3_eq_3)

theorem all_fixed_refit_keeps_ols_statistics_witness:
  "results (refit_model_with_fixed_coefficients example_sm all_fixed_model) =
     Some \<lparr>params = [(''const'', 2), (''TV'', 0)], fitted_params = [(''const'', 0), (''TV'', 1)],
              rsquared = 1,
           resid = [0, 0, 0], fittedvalues = [1, 2, 3]\<rparr>"
proof -
  have a: "features all_fixed_model \<noteq> []" by (simp add: all_fixed_model_def example_model_def)
  have b: "truthy (kpi all_fixed_model)"
    by (simp add: all_fixed_model_def example_model_def truthy_def)
  have c: "list_all (has_key (fixed_coefficients all_fixed_model)) (features all_fixed_model)"
    by (simp add: all_fixed_model_def example_model_def has_key_def keys_def)
  have d: "has_key (fixed_coefficients all_fixed_model) ''const''"
    by (simp add: all_fixed_model_def example_model_def has_key_def keys_def)
  have e: "distinct (keys (fixed_coefficients all_fixed_model))"
    by (simp add: all_fixed_model_def example_model_def keys_def)
  have f: "column (model_data all_fixed_model) (kpi all_fixed_model) = Some [1, 2, 3]"
    by (simp add: all_fixed_model_def example_model_def column_def example_data_def)
  have g: "full_design (transformed_data all_fixed_model) (model_data all_fixed_model)
      (features all_fixed_model) (length [1, 2, 3::real]) =
      Some [(''const'', [1, 1, 1]), (''TV'', [1, 2, 3])]"
    by (simp add: all_fixed_model_def example_model_def column_def example_data_def
        full_design_def numeral_3_eq_3)
  have h: "OLS example_sm [1, 2, 3] [(''const'', [1, 1, 1]), (''TV'', [1, 2, 3])] =
      Some ([1, 2, 3], [(''const'', [1, 1, 1]), (''TV'', [1, 2, 3])])"
    by (simp add: example_sm_def)
  have i: "fit example_sm ([1, 2, 3], [(''const'', [1, 1, 1]), (''TV'', [1, 2, 3])]) =
      Some \<lparr>params = [(''const'', 0), (''TV'', 1)], fitted_params = [(''const'', 0), (''TV'', 1)],
              rsquared = 1,
           resid = [0, 0, 0], fittedvalues = [1, 2, 3]\<rparr>"
    by (simp add: example_sm_def example_fit_def)
  from all_fixed_refit_keeps_ols_statistics [OF a b c d e f g h i]
  show ?thesis
    by (simp add: all_fixed_model_def example_model_def override_params_def)
qed

text \<open>
  C5 as stated fails.  With the intercept fixed at 2 and \<open>TV\<close> at 0 the reported
  coefficients multiplied with the design give the fitted values \<open>[2, 2, 2]\<close>, whose
  residuals against \<open>Sales = [1, 2, 3]\<close> give \<open>R\<^sup>2 = 0\<close>; the refit reports \<open>R\<^sup>2 = 1\<close>,
  the value of the unconstrained fit.
\<close>

theorem all_fixed_rsquared_counterexample:
  "rsquared (the (results (refit_model_with_fixed_coefficients example_sm all_fixed_model))) = 1 \<and>
   linear_predictor
     (params (the (results (refit_model_with_fixed_coefficients example_sm all_fixed_model)))) 3
     [(''const'', [1, 1, 1]), (''TV'', [1, 2, 3])] = Some [2, 2, 2] \<and>
   rsquared_of_fitted [1, 2, 3] [2, 2, 2] = 0"
  by (simp add: all_fixed_example linear_predictor_def series_add_def scale_def
      rsquared_of_fitted_def series_sub_def mean_def numeral_3_eq_3)

text \<open>
  A model without features is outside the statement above: the guard of the refit returns
  before anything is fitted, and the object stays as it is.
\<close>

lemma refit_without_features:
  "features s = [] \<Longrightarrow> refit_model_with_fixed_coefficients sm s = s"
  by (simp add: refit_model_with_fixed_coefficients_def)

section \<open>Sums over the columns of a frame\<close>

lemma total_Nil [simp]: "total [] t = 0"
  by (simp add: total_def)

lemma total_Cons [simp]: "total (kv # d) t = snd kv ! t + total d t"
  by (simp add: total_def)

lemma total_append [simp]: "total (d @ e) t = total d t + total e t"
  by (simp add: total_def)

lemma total_update_new:
  "map_of d k = None \<Longrightarrow> total (AList.update k v d) t = total d t + v ! t"
  by (induction d) (auto split: if_splits)

lemma total_update_old:
  "map_of d k = Some old \<Longrightarrow> total (AList.update k v d) t = total d t - old ! t + v ! t"
  by (induction d) (auto split: if_splits)

lemma total_delete:
  "distinct (keys d) \<Longrightarrow> map_of d k = Some old \<Longrightarrow>
   total (AList.delete k d) t = total d t - old ! t"
proof (induction d)
  case Nil
  then show ?case by simp
next
  case (Cons kv d)
  show ?case
  proof (cases "fst kv = k")
    case True
    with Cons.prems have "k \<notin> fst ` set d" by (auto simp: keys_def)
    then have "AList.delete k d = d" by simp
    with True Cons.prems show ?thesis by (cases kv) (simp add: AList.delete_simps)
  next
    case False
    with Cons show ?thesis by (cases kv) (simp add: keys_def AList.delete_simps)
  qed
qed

lemma total_delete_absent:
  "map_of d k = None \<Longrightarrow> AList.delete k d = d"
  by (simp add: map_of_eq_None_iff)

lemma set_update_subset: "set (AList.update k v d) \<subseteq> insert (k, v) (set d)"
  by (induction d) auto

lemma well_formed_update:
  "well_formed n d \<Longrightarrow> length v = n \<Longrightarrow> well_formed n (AList.update k v d)"
  using set_update_subset [of k v d]
  unfolding well_formed_def keys_def list_all_iff
  by (auto simp: AList.distinct_update)

lemma well_formed_delete:
  "well_formed n d \<Longrightarrow> well_formed n (AList.delete k d)"
  unfolding well_formed_def keys_def list_all_iff
  by (auto simp: AList.delete_eq distinct_map_filter)

lemma well_formed_lookup:
  "well_formed n d \<Longrightarrow> map_of d k = Some v \<Longrightarrow> length v = n"
  unfolding well_formed_def list_all_iff by (fastforce dest: map_of_SomeD)

lemma series_add_nth:
  "t < length a \<Longrightarrow> t < length b \<Longrightarrow> series_add a b ! t = a ! t + b ! t"
  by (simp add: series_add_def)

lemma series_add_length: "length (series_add a b) = min (length a) (length b)"
  by (simp add: series_add_def)

lemma well_formed_add_to_column:
  "well_formed n d \<Longrightarrow> length x = n \<Longrightarrow> well_formed n (add_to_column c x d)"
  by (auto simp: add_to_column_def series_add_length well_formed_lookup
      intro!: well_formed_update split: option.splits)

lemma total_add_to_column:
  "well_formed n d \<Longrightarrow> length x = n \<Longrightarrow> t < n \<Longrightarrow>
   total (add_to_column c x d) t = total d t + x ! t"
  by (auto simp: add_to_column_def total_update_new total_update_old series_add_nth
      well_formed_lookup split: option.splits)

lemma fold_add_to_column:
  "well_formed n d \<Longrightarrow> t < n \<Longrightarrow> list_all (\<lambda>cc. length (f cc) = n) comps \<Longrightarrow>
   well_formed n (fold (\<lambda>cc. add_to_column (fst cc) (f cc)) comps d) \<and>
   total (fold (\<lambda>cc. add_to_column (fst cc) (f cc)) comps d) t =
     total d t + sum_list (map (\<lambda>cc. f cc ! t) comps)"
proof (induction comps arbitrary: d)
  case Nil
  then show ?case by simp
next
  case (Cons cc comps)
  from Cons.prems have len: "length (f cc) = n" and rest: "list_all (\<lambda>cc. length (f cc) = n) comps"
    by simp_all
  have wf: "well_formed n (add_to_column (fst cc) (f cc) d)"
    using Cons.prems(1) len by (rule well_formed_add_to_column)
  from Cons.IH [OF wf Cons.prems(2) rest]
  show ?case
    by (simp add: total_add_to_column [OF Cons.prems(1) len Cons.prems(2)])
qed

lemma fold_add_to_column_other:
  "\<not> has_key comps w \<Longrightarrow>
   map_of (fold (\<lambda>cc. add_to_column (fst cc) (f cc)) comps d) w = map_of d w"
proof (induction comps arbitrary: d)
  case Nil
  then show ?case by simp
next
  case (Cons cc comps)
  then have ne: "fst cc \<noteq> w" and rest: "\<not> has_key comps w"
    by (auto simp: has_key_def keys_def)
  have "map_of (add_to_column (fst cc) (f cc) d) w = map_of d w"
    using ne by (auto simp: add_to_column_def AList.update_conv' split: option.splits)
  with Cons.IH [OF rest] show ?case by simp
qed

lemma fst_fold_add_component:
  "fst (fold (add_component wc tw w) comps st) =
   fold (\<lambda>cc. add_to_column (fst cc) (share wc (snd cc) tw)) comps (fst st)"
  by (induction comps arbitrary: st) (simp_all add: add_component_def)

lemma share_nth: "t < length wc \<Longrightarrow> share wc c tw ! t = wc ! t * (c / tw)"
  by (simp add: share_def)

lemma sum_shares:
  "t < length wc \<Longrightarrow>
   sum_list (map (\<lambda>cc. share wc (snd cc) tw ! t) comps) =
     wc ! t * (sum_list (map snd comps) / tw)"
  by (induction comps) (simp_all add: share_nth algebra_simps add_divide_distrib)

lemma nonneg_total_weight:
  "list_all (\<lambda>c. 0 \<le> snd c) comps \<Longrightarrow> total_weight_of comps = sum_list (map snd comps)"
  by (induction comps) (simp_all add: total_weight_of_def)

text \<open>
  C2 (as the code has it).  Expanding a weighted variable \<open>w\<close> with contribution \<open>wc\<close> and
  positive total weight changes the sum of all contributions at a timestep from
  \<open>total\<close> to \<open>total - wc[t] + wc[t] * (sum of the coefficients / sum of their absolute
  values)\<close>: the components re-sum to \<open>w\<close>'s contribution scaled by that ratio.  When no
  component coefficient is negative the ratio is 1 and the components re-sum to the
  unexpanded contribution.  The same holds for \<open>expand_weighted_variable_contributions\<close>
  when \<open>w\<close> is not a component of itself.
\<close>

theorem weighted_expansion_total:
  assumes wf: "well_formed n vc" and w: "map_of vc w = Some wc" and t: "t < n"
    and tw: "total_weight_of comps > 0"
  shows "total (fst (expand_weighted (w, comps) (vc, groups))) t =
           total vc t - wc ! t + wc ! t * (sum_list (map snd comps) / total_weight_of comps) \<and>
         (list_all (\<lambda>c. 0 \<le> snd c) comps \<longrightarrow>
            total (fst (expand_weighted (w, comps) (vc, groups))) t = total vc t) \<and>
         (\<not> has_key comps w \<longrightarrow>
            total (expand_column (w, comps) vc) t =
              total vc t - wc ! t +
              wc ! t * (sum_list (map snd comps) / total_weight_of comps)) \<and>
         (\<not> has_key comps w \<and> list_all (\<lambda>c. 0 \<le> snd c) comps \<longrightarrow>
            total (expand_column (w, comps) vc) t = total vc t)"
proof -
  from wf w have len: "length wc = n" by (rule well_formed_lookup)
  let ?f = "\<lambda>cc. share wc (snd cc) (total_weight_of comps)"
  have lens: "list_all (\<lambda>cc. length (?f cc) = n) comps"
    by (simp add: list_all_iff share_def len)
  have del: "well_formed n (AList.delete w vc)" using wf by (rule well_formed_delete)
  from wf have dist: "distinct (keys vc)" by (simp add: well_formed_def)
  have "fst (expand_weighted (w, comps) (vc, groups)) =
      fold (\<lambda>cc. add_to_column (fst cc) (?f cc)) comps (AList.delete w vc)"
    using w tw by (simp add: expand_weighted_def fst_fold_add_component)
  then have "total (fst (expand_weighted (w, comps) (vc, groups))) t =
      total (AList.delete w vc) t + sum_list (map (\<lambda>cc. ?f cc ! t) comps)"
    using fold_add_to_column [OF del t lens] by simp
  then have first: "total (fst (expand_weighted (w, comps) (vc, groups))) t =
      total vc t - wc ! t + wc ! t * (sum_list (map snd comps) / total_weight_of comps)"
    using t len by (simp add: total_delete [OF dist w] sum_shares)
  have ratio: "sum_list (map snd comps) / total_weight_of comps = 1"
    if "list_all (\<lambda>c. 0 \<le> snd c) comps"
    using nonneg_total_weight [OF that] tw by simp
  have second: "total (expand_column (w, comps) vc) t =
      total vc t - wc ! t + wc ! t * (sum_list (map snd comps) / total_weight_of comps)"
    if nw: "\<not> has_key comps w"
  proof -
    from tw have ne: "comps \<noteq> []" by (auto simp: total_weight_of_def)
    from w have has: "has_key vc w"
      by (auto simp: has_key_def keys_def dest: map_of_SomeD intro: rev_image_eqI)
    let ?d = "fold (\<lambda>cc. add_to_column (fst cc) (?f cc)) comps vc"
    have eq: "expand_column (w, comps) vc = AList.delete w ?d"
      using has ne tw w by (simp add: expand_column_def)
    from fold_add_to_column [OF wf t lens] have wfd: "well_formed n ?d"
      and tot: "total ?d t = total vc t + sum_list (map (\<lambda>cc. ?f cc ! t) comps)" by simp_all
    from wfd have distd: "distinct (keys ?d)" by (simp add: well_formed_def)
    have "map_of ?d w = Some wc" using fold_add_to_column_other [OF nw] w by simp
    from total_delete [OF distd this] tot show ?thesis
      using t len by (simp add: eq sum_shares)
  qed
  have third: "total (fst (expand_weighted (w, comps) (vc, groups))) t = total vc t"
    if "list_all (\<lambda>c. 0 \<le> snd c) comps"
    unfolding first ratio [OF that] by simp
  have fourth: "total (expand_column (w, comps) vc) t = total vc t"
    if "\<not> has_key comps w" and "list_all (\<lambda>c. 0 \<le> snd c) comps"
    unfolding second [OF that(1)] ratio [OF that(2)] by simp
  from first second third fourth show ?thesis by blast
qed

theorem weighted_expansion_total_witness:
  "total (fst (expand_weighted (''w'', [(''a'', 2), (''b'', 1)]) ([(''w'', [3, 6])], []))) 0 = 3 \<and>
   total (expand_column (''w'', [(''a'', 2), (''b'', 1)]) [(''w'', [3, 6])]) 0 = 3"
proof -
  have a: "well_formed 2 [(''w'', [3, 6])]" by (simp add: well_formed_def keys_def)
  have b: "map_of [(''w'', [3, 6::real])] ''w'' = Some [3, 6]" by simp
  have c: "(0::nat) < 2" by simp
  have d: "total_weight_of [(''a'', 2), (''b'', 1)] > 0" by (simp add: total_weight_of_def)
  from weighted_expansion_total [OF a b c d, of "[]"] show ?thesis
    by (simp add: has_key_def keys_def total_weight_of_def)
qed

text \<open>
  C2 as stated fails for the coefficients \<open>+2\<close> and \<open>-1\<close>: the contribution \<open>[3, 6]\<close> of the
  composite becomes \<open>[2, 4]\<close> and \<open>[-1, -2]\<close>, which re-sum to \<open>[1, 2]\<close>, a third of it.
\<close>

theorem weighted_expansion_counterexample:
  "fst (expand_weighted (''w'', [(''a'', 2), (''b'', -1)]) ([(''w'', [3, 6])], [])) =
     [(''a'', [2, 4]), (''b'', [-1, -2])] \<and>
   expand_column (''w'', [(''a'', 2), (''b'', -1)]) [(''w'', [3, 6])] =
     [(''a'', [2, 4]), (''b'', [-1, -2])] \<and>
   total [(''a'', [2, 4]), (''b'', [-1, -2])] 0 = 1 \<and>
   total [(''w'', [3, 6])] 0 = 3"
  by (simp add: expand_weighted_def expand_column_def total_weight_of_def add_component_def
      add_to_column_def share_def has_key_def keys_def total_def)

section \<open>The table of the curve search\<close>






















section \<open>The reconciliation with the group Base\<close>

lemma add_scalar_loop_invariant:
  "k \<le> length b \<Longrightarrow>
   length (fold (\<lambda>i b. b[i := b ! i + c]) [0..<k] b) = length b \<and>
   (\<forall>i<k. fold (\<lambda>i b. b[i := b ! i + c]) [0..<k] b ! i = b ! i + c) \<and>
   (\<forall>i\<ge>k. fold (\<lambda>i b. b[i := b ! i + c]) [0..<k] b ! i = b ! i)"
proof (induction k)
  case 0
  then show ?case by simp
next
  case (Suc k)
  define r where "r = fold (\<lambda>i b. b[i := b ! i + c]) [0..<k] b"
  from Suc have kl: "k < length b" and kle: "k \<le> length b" by simp_all
  from Suc.IH [OF kle] have len: "length r = length b"
    and old: "\<And>i. i < k \<Longrightarrow> r ! i = b ! i + c"
    and rest: "\<And>i. k \<le> i \<Longrightarrow> r ! i = b ! i"
    by (simp_all add: r_def)
  have new: "fold (\<lambda>i b. b[i := b ! i + c]) [0..<Suc k] b = r[k := r ! k + c]"
    by (simp add: r_def)
  have "\<forall>i<Suc k. (r[k := r ! k + c]) ! i = b ! i + c"
  proof (intro allI impI)
    fix i assume "i < Suc k"
    then show "(r[k := r ! k + c]) ! i = b ! i + c"
      using kl len old [of i] rest [of k] by (cases "i = k") simp_all
  qed
  moreover have "\<forall>i\<ge>Suc k. (r[k := r ! k + c]) ! i = b ! i"
    using rest by simp
  ultimately show ?case using len by (simp only: new length_list_update)
qed

lemma add_scalar_loop:
  "fold (\<lambda>i b. b[i := b ! i + c]) [0..<length b] b = map (\<lambda>v. v + c) b"
  using add_scalar_loop_invariant [of "length b" b c]
  by (intro nth_equalityI) simp_all

section \<open>Grouping\<close>

lemma keys_Nil [simp]: "keys [] = []"
  by (simp add: keys_def)

lemma keys_Cons [simp]: "keys (kv # d) = fst kv # keys d"
  by (simp add: keys_def)


lemma keys_update: "set (keys (AList.update k v d)) = insert k (set (keys d))"
  using AList.dom_update [of k v d] by (simp add: keys_def)

lemma keys_fold_update:
  "set (keys (fold (\<lambda>gc df. AList.update (fst gc) (snd gc) df) g d)) =
     set (keys d) \<union> set (keys g)"
  by (induction g arbitrary: d) (auto simp: keys_update)




lemma well_formed_Nil [simp]: "well_formed n []"
  by (simp add: well_formed_def keys_def)

lemma sub_scalar_length [simp]: "length (sub_scalar xs c) = length xs"
  by (simp add: sub_scalar_def)





lemma distinct_keys_update: "distinct (keys d) \<Longrightarrow> distinct (keys (AList.update k v d))"
  by (simp add: keys_def AList.distinct_update)

lemma group_step_distinct:
  "distinct (keys (fst st)) \<Longrightarrow> distinct (keys (fst (group_step groups n vc st)))"
  by (auto simp: group_step_def Let_def initialize_group_def distinct_keys_update
      split: option.splits)

lemma fold_group_step_distinct:
  "distinct (keys (fst st)) \<Longrightarrow> distinct (keys (fst (fold (group_step groups n) vcs st)))"
  by (induction vcs arbitrary: st) (simp_all add: group_step_distinct)




lemma add_total_adjustment_keys:
  "keys (add_total_adjustment grouped adj) = keys grouped"
  by (auto simp: add_total_adjustment_def keys_def AList.update_keys has_key_def
      intro!: map_idI)

lemma map_of_fold_update:
  "distinct (keys g) \<Longrightarrow>
   map_of (fold (\<lambda>gc df. AList.update (fst gc) (snd gc) df) g d) k =
     (if has_key g k then map_of g k else map_of d k)"
proof (induction g arbitrary: d)
  case Nil
  then show ?case by (simp add: has_key_def keys_def)
next
  case (Cons gc g)
  from Cons.prems have dist: "distinct (keys g)" and nin: "\<not> has_key g (fst gc)"
    by (simp_all add: keys_def has_key_def)
  show ?case
    using Cons.IH [OF dist, of "AList.update (fst gc) (snd gc) d"] nin
    by (cases gc) (auto simp: AList.update_conv' has_key_def keys_def)
qed

text \<open>The grouped contributions and the recorded adjustments, as the reconciliation sees them.\<close>

lemma grouped_distinct:
  "distinct (keys (fst (grouped_contributions s r data groups)))"
  unfolding grouped_contributions_def Let_def
  by (rule fold_group_step_distinct) (simp add: keys_def)

text \<open>
  C6 (as the code has it).  Let the grouped contributions and the recorded adjustments be
  those the decomposition has built before the reconciliation.  When they hold a group
  \<open>Base\<close> and an adjustment was recorded, the \<open>Base\<close> column of the output is that group's
  series with the sum of the recorded adjustments added at every timestep; when they hold a
  group \<open>Base\<close> and nothing was recorded the column is the group's series; when they hold no
  group \<open>Base\<close>, the output has no column \<open>Base\<close>: none is created.
\<close>

theorem base_receives_total_adjustment:
  assumes r: "results s = Some r" and d: "model_data s = Some data"
    and df: "calculate_decomposition s groups = Some df"
  shows "(has_key (fst (grouped_contributions s r data groups)) ''Base'' \<and>
          snd (grouped_contributions s r data groups) \<noteq> [] \<longrightarrow>
            map_of df ''Base'' =
              Some (map (\<lambda>v. v + sum_list (map snd (snd (grouped_contributions s r data groups))))
                      (the (map_of (fst (grouped_contributions s r data groups)) ''Base'')))) \<and>
         (has_key (fst (grouped_contributions s r data groups)) ''Base'' \<and>
          snd (grouped_contributions s r data groups) = [] \<longrightarrow>
            map_of df ''Base'' = map_of (fst (grouped_contributions s r data groups)) ''Base'') \<and>
         (\<not> has_key (fst (grouped_contributions s r data groups)) ''Base'' \<longrightarrow>
            \<not> has_key df ''Base'')"
proof -
  define grouped where "grouped = fst (grouped_contributions s r data groups)"
  define adj where "adj = snd (grouped_contributions s r data groups)"
  define final where "final = add_total_adjustment grouped adj"
  from df r d obtain actual where frame: "df =
      fold (\<lambda>gc df. AList.update (fst gc) (snd gc) df) final
        [(''Actual'', actual), (''Predicted'', predicted_values r data (features s))]"
    by (auto simp: calculate_decomposition_def final_def grouped_def adj_def
        split: option.splits)
  have keys_final: "keys final = keys grouped"
    by (simp add: final_def add_total_adjustment_keys)
  have dist: "distinct (keys final)"
    by (simp add: keys_final grouped_def grouped_distinct)
  have has: "has_key final ''Base'' = has_key grouped ''Base''"
    by (simp add: has_key_def keys_final)
  have look: "map_of df ''Base'' = (if has_key grouped ''Base'' then map_of final ''Base'' else None)"
    by (simp add: frame map_of_fold_update [OF dist] has)
  have "map_of final ''Base'' =
      Some (map (\<lambda>v. v + sum_list (map snd adj)) (the (map_of grouped ''Base'')))"
    if "has_key grouped ''Base''" "adj \<noteq> []"
    using that by (simp add: final_def add_total_adjustment_def add_scalar_loop AList.update_conv')
  moreover have "map_of final ''Base'' = map_of grouped ''Base''" if "adj = []"
    using that by (simp add: final_def add_total_adjustment_def)
  moreover have "\<not> has_key df ''Base''" if "\<not> has_key grouped ''Base''"
    using that keys_fold_update [of final "[(''Actual'', actual),
        (''Predicted'', predicted_values r data (features s))]"]
    by (simp add: frame has_key_def keys_final)
  ultimately show ?thesis
    unfolding grouped_def [symmetric] adj_def [symmetric] using look by simp
qed

lemma example_results:
  "results example_model =
     Some \<lparr>params = [(''const'', 0), (''TV'', 1)], fitted_params = [(''const'', 0), (''TV'', 1)],
           rsquared = 1, resid = [0, 0, 0], fittedvalues = [1, 2, 3]\<rparr>"
  by (simp add: example_model_def)

lemma base_grouped:
  "grouped_contributions example_model
     \<lparr>params = [(''const'', 0), (''TV'', 1)], fitted_params = [(''const'', 0), (''TV'', 1)],
      rsquared = 1, resid = [0, 0, 0], fittedvalues = [1, 2, 3]\<rparr> example_data base_groups =
   ([(''Base'', [0, 0, 0]), (''Media'', [0, 1, 2])], [(''TV'', 1)])"
  by (simp add: example_model_def example_data_def base_groups_def grouped_contributions_def
      individual_contributions_def contribution_step_def index_length_def scale_def
      expand_all_def group_step_def initialize_group_def has_key_def keys_def series_add_def
      sub_scalar_def numeral_3_eq_3 Let_def)

theorem base_receives_total_adjustment_witness:
  "map_of (the (calculate_decomposition example_model base_groups)) ''Base'' = Some [1, 1, 1]"
proof -
  have d: "model_data example_model = Some example_data" by (simp add: example_model_def)
  have "calculate_decomposition example_model base_groups \<noteq> None"
    by (simp add: calculate_decomposition_def example_model_def example_data_def column_def)
  then obtain df where df: "calculate_decomposition example_model base_groups = Some df"
    by blast
  from base_receives_total_adjustment [OF example_results d df] show ?thesis
    by (simp add: df base_grouped has_key_def)
qed

lemma no_base_decomposition:
  "calculate_decomposition example_model no_base_groups =
     Some [(''Actual'', [1, 2, 3]), (''Predicted'', [1, 2, 3]),
           (''Other'', [0, 0, 0]), (''Media'', [0, 1, 2])] \<and>
   snd (grouped_contributions example_model
          \<lparr>params = [(''const'', 0), (''TV'', 1)], fitted_params = [(''const'', 0), (''TV'', 1)],
           rsquared = 1,
           resid = [0, 0, 0], fittedvalues = [1, 2, 3]\<rparr> example_data no_base_groups) =
     [(''TV'', 1)]"
  by (simp add: calculate_decomposition_def example_model_def example_data_def column_def
      no_base_groups_def grouped_contributions_def individual_contributions_def
      contribution_step_def index_length_def scale_def expand_all_def group_step_def
      initialize_group_def has_key_def keys_def series_add_def sub_scalar_def add_total_adjustment_def
      predicted_values_def predict_def linear_predictor_def add_constant_def is_const_column_def
      numeral_3_eq_3 Let_def)

text \<open>
  C6 as stated fails.  In the example model with \<open>TV\<close> adjusted by \<open>Min\<close> and no variable
  assigned to \<open>Base\<close>, the adjustment 1 is recorded, but the output has no column \<open>Base\<close>:
  its group columns are \<open>Other = [0, 0, 0]\<close> and \<open>Media = [0, 1, 2]\<close>, and the recorded
  adjustment appears nowhere.
\<close>

theorem missing_base_counterexample:
  "snd (grouped_contributions example_model
          \<lparr>params = [(''const'', 0), (''TV'', 1)], fitted_params = [(''const'', 0), (''TV'', 1)],
           rsquared = 1,
           resid = [0, 0, 0], fittedvalues = [1, 2, 3]\<rparr> example_data no_base_groups) =
     [(''TV'', 1)] \<and>
   \<not> has_key (the (calculate_decomposition example_model no_base_groups)) ''Base'' \<and>
   group_columns (the (calculate_decomposition example_model no_base_groups)) =
     [(''Other'', [0, 0, 0]), (''Media'', [0, 1, 2])]"
  by (simp add: no_base_decomposition has_key_def keys_def group_columns_def)

section \<open>The expansion keeps the sum and the groups\<close>












section \<open>The individual contributions sum to the linear predictor\<close>










section \<open>Conservation\<close>










end
